theory Spec2Isabelle
  imports Main
begin

text \<open>
  A model of \<open>terminallynx/main.py\<close>: the request client \<open>GeminiBrowser\<close> with its retry
  loop, and the command loop of \<open>main\<close>. The network, the console and the file system are
  made explicit: what the network answers is an input of the model, and what the program
  posts, prints, sleeps and writes is a list of actions that it returns. The console is
  that of the \<open>rich\<close> library, which reads the text it prints as markup and raises an
  exception when the markup is wrong.
\<close>

section \<open>Python strings\<close>

text \<open>
  A Python \<open>str\<close> is a sequence of Unicode code points, so it is modelled as a list of
  code points. \<open>py\<close> turns an ASCII literal of this file into such a string.
\<close>

type_synonym str = "nat list"

definition py :: "string \<Rightarrow> str" where
  "py s = map of_char s"

text \<open>
  The code points for which \<open>str.isspace\<close> holds; \<open>str.strip()\<close> and
  \<open>str.split()\<close> without a separator use the same set.
\<close>

definition isspace :: "nat \<Rightarrow> bool" where
  "isspace c \<longleftrightarrow>
     (9 \<le> c \<and> c \<le> 13) \<or> (28 \<le> c \<and> c \<le> 32) \<or> c = 133 \<or> c = 160 \<or> c = 5760 \<or>
     (8192 \<le> c \<and> c \<le> 8202) \<or> c = 8232 \<or> c = 8233 \<or> c = 8239 \<or> c = 8287 \<or> c = 12288"

definition strip :: "str \<Rightarrow> str" where
  "strip s = rev (dropWhile isspace (rev (dropWhile isspace s)))"

text \<open>
  \<open>str.lower()\<close>: the ASCII capitals and the Kelvin sign (U+212A) are the only code points
  whose lower-case form is an ASCII letter; every other code point either stays as it is
  or becomes code points outside ASCII, and is left as it is here. The program only
  compares the result with the ASCII words \<open>exit\<close> and \<open>quit\<close>.
\<close>

definition lower_cp :: "nat \<Rightarrow> nat" where
  "lower_cp c = (if 65 \<le> c \<and> c \<le> 90 then c + 32 else if c = 8490 then 107 else c)"

definition lower :: "str \<Rightarrow> str" where
  "lower s = map lower_cp s"

definition startswith :: "str \<Rightarrow> str \<Rightarrow> bool" where
  "startswith s p \<longleftrightarrow> take (length p) s = p"

text \<open>\<open>s.split(maxsplit=1)\<close>: at most two parts; the second keeps its trailing blanks.\<close>

definition split_maxsplit1 :: "str \<Rightarrow> str list" where
  "split_maxsplit1 s =
     (let s1 = dropWhile isspace s in
      if s1 = [] then []
      else
        let tok = takeWhile (\<lambda>c. \<not> isspace c) s1;
            rest = dropWhile isspace (dropWhile (\<lambda>c. \<not> isspace c) s1)
        in if rest = [] then [tok] else [tok, rest])"

fun join :: "str \<Rightarrow> str list \<Rightarrow> str" where
  "join sep [] = []"
| "join sep [x] = x"
| "join sep (x # y # ys) = x @ sep @ join sep (y # ys)"

text \<open>Decimal rendering of an integer, as an f-string does it.\<close>

fun str_nat :: "nat \<Rightarrow> str" where
  "str_nat n = (if n < 10 then [48 + n] else str_nat (n div 10) @ [48 + n mod 10])"

declare str_nat.simps [simp del]

definition str_int :: "int \<Rightarrow> str" where
  "str_int i = (if i < 0 then 45 # str_nat (nat (- i)) else str_nat (nat i))"

text \<open>Truthiness of an optional string: \<open>None\<close> and the empty string are false.\<close>

definition truthy :: "str option \<Rightarrow> bool" where
  "truthy r = (case r of None \<Rightarrow> False | Some s \<Rightarrow> s \<noteq> [])"

section \<open>Decoded JSON and the exceptions of subscripting\<close>

text \<open>
  The value that \<open>response.json()\<close> returns. An object is a Python dict with string keys,
  held as an association list that is read with \<open>map_of\<close>. Numbers are never inspected
  by the program; a float is kept as significand and exponent.
\<close>

datatype json =
    JNull
  | JBool bool
  | JInt int
  | JFloat int int
  | JStr str
  | JArr "json list"
  | JObj "(str \<times> json) list"

text \<open>
  What \<open>console.print\<close> raises: \<open>rich.errors.MarkupError\<close>, or another exception that
  comes out of the library, each with its message.
\<close>

datatype print_error = MarkupError str | LibraryError str

fun error_text :: "print_error \<Rightarrow> str" where
  "error_text (MarkupError m) = m"
| "error_text (LibraryError m) = m"

text \<open>The exceptions that can leave the functions of the program.\<close>

datatype exn = KeyError | IndexError | TypeError | AttributeError | PrintError print_error

text \<open>\<open>v[key]\<close> for a string key: only a dict accepts it.\<close>

fun getitem_key :: "json \<Rightarrow> str \<Rightarrow> exn + json" where
  "getitem_key (JObj kvs) k = (case map_of kvs k of None \<Rightarrow> Inl KeyError | Some v \<Rightarrow> Inr v)"
| "getitem_key _ k = Inl TypeError"

text \<open>
  \<open>v[i]\<close> for an index \<open>i \<ge> 0\<close>: a list or a string yields its element or IndexError; a
  decoded object has string keys only, so an integer key is a KeyError; the other values
  are not subscriptable.
\<close>

fun getitem_index :: "json \<Rightarrow> nat \<Rightarrow> exn + json" where
  "getitem_index (JArr xs) i = (if i < length xs then Inr (xs ! i) else Inl IndexError)"
| "getitem_index (JStr s) i = (if i < length s then Inr (JStr [s ! i]) else Inl IndexError)"
| "getitem_index (JObj kvs) i = Inl KeyError"
| "getitem_index _ i = Inl TypeError"

text \<open>\<open>v.strip()\<close>: only a string has the method.\<close>

fun strip_method :: "json \<Rightarrow> exn + str" where
  "strip_method (JStr s) = Inr (strip s)"
| "strip_method _ = Inl AttributeError"

definition and_then :: "exn + 'a \<Rightarrow> ('a \<Rightarrow> exn + 'b) \<Rightarrow> exn + 'b" where
  "and_then r f = (case r of Inl e \<Rightarrow> Inl e | Inr v \<Rightarrow> f v)"

text \<open>\<open>output["candidates"][0]["content"]["parts"][0]["text"].strip()\<close>, left to right.\<close>

definition extract_text :: "json \<Rightarrow> exn + str" where
  "extract_text output =
     and_then (getitem_key output (py ''candidates'')) (\<lambda>a.
     and_then (getitem_index a 0) (\<lambda>b.
     and_then (getitem_key b (py ''content'')) (\<lambda>c.
     and_then (getitem_key c (py ''parts'')) (\<lambda>d.
     and_then (getitem_index d 0) (\<lambda>e.
     and_then (getitem_key e (py ''text'')) strip_method)))))"

section \<open>Console markup\<close>

text \<open>
  \<open>console.print\<close> reads its text as markup (\<open>rich.markup.render\<close>). Two functions of
  the library are parameters of the model: \<open>Style.normalize\<close>, which gives a style name
  its canonical form or raises, and the evaluation of the parameters of an \<open>@\<close> tag,
  given by the message of the MarkupError it raises, if any.
\<close>

record rich =
  style_normalize :: "str \<Rightarrow> print_error + str"
  meta_message :: "str \<Rightarrow> str option"

text \<open>
  The tags of a text, each with the position of its bracket, as the pattern
  \<open>((\\*)\[([a-z#/@][^[]*?)])\<close> finds them from left to right: a bracket, a character
  that may begin a tag, then everything up to the next closing bracket, with no opening
  bracket in between. A tag after an odd number of backslashes is escaped and is not a
  tag. The scanner reads the text once; its state says what precedes the next character.
\<close>

definition tag_start :: "nat \<Rightarrow> bool" where
  "tag_start c \<longleftrightarrow> (97 \<le> c \<and> c \<le> 122) \<or> c = 35 \<or> c = 47 \<or> c = 64"

datatype scan_state =
    Outside nat
  | Bracket nat nat
  | Inside nat nat str nat

text \<open>
  \<open>Outside bs\<close>: no tag is open, \<open>bs\<close> backslashes precede. \<open>Bracket p bs\<close>: the bracket at
  \<open>p\<close>, after \<open>bs\<close> backslashes, has just been read. \<open>Inside p bs acc cur\<close>: the tag
  opened at \<open>p\<close> holds \<open>acc\<close> so far, which ends in \<open>cur\<close> backslashes.
\<close>

definition outside_step :: "nat \<Rightarrow> nat \<Rightarrow> nat \<Rightarrow> scan_state" where
  "outside_step bs pos c =
     (if c = 92 then Outside (bs + 1) else if c = 91 then Bracket pos bs else Outside 0)"

fun scan :: "scan_state \<Rightarrow> nat \<Rightarrow> str \<Rightarrow> (nat \<times> str) list" where
  "scan st pos [] = []"
| "scan (Outside bs) pos (c # cs) = scan (outside_step bs pos c) (pos + 1) cs"
| "scan (Bracket p bs) pos (c # cs) =
     (if tag_start c then scan (Inside p bs [c] 0) (pos + 1) cs
      else scan (outside_step 0 pos c) (pos + 1) cs)"
| "scan (Inside p bs acc cur) pos (c # cs) =
     (if c = 93 then (if even bs then [(p, acc)] else []) @ scan (Outside 0) (pos + 1) cs
      else if c = 91 then scan (Bracket pos cur) (pos + 1) cs
      else scan (Inside p bs (acc @ [c]) (if c = 92 then cur + 1 else 0)) (pos + 1) cs)"

text \<open>\<open>tag_text.partition("=")\<close>: the name, and the parameters if there is an equals sign.\<close>

definition partition_eq :: "str \<Rightarrow> str \<times> str option" where
  "partition_eq t =
     (takeWhile (\<lambda>c. c \<noteq> 61) t,
      if dropWhile (\<lambda>c. c \<noteq> 61) t = [] then None
      else Some (tl (dropWhile (\<lambda>c. c \<noteq> 61) t)))"

definition tag_markup :: "str \<Rightarrow> str option \<Rightarrow> str" where
  "tag_markup name params =
     (case params of None \<Rightarrow> [91] @ name @ [93] | Some p \<Rightarrow> [91] @ name @ [61] @ p @ [93])"

text \<open>\<open>pop_style\<close>: remove the open tag nearest to the top of the stack that has the name.\<close>

fun pop_style ::
  "str \<Rightarrow> (str \<times> str option) list \<Rightarrow> ((str \<times> str option) \<times> (str \<times> str option) list) option" where
  "pop_style n [] = None"
| "pop_style n (t # ts) =
     (if fst t = n then Some (t, ts)
      else (case pop_style n ts of None \<Rightarrow> None | Some (x, r) \<Rightarrow> Some (x, t # r)))"

text \<open>After a tag is closed: an \<open>@\<close> tag with parameters has them evaluated.\<close>

definition closed_tag_error :: "rich \<Rightarrow> str \<times> str option \<Rightarrow> print_error option" where
  "closed_tag_error lib open_tag =
     (if startswith (fst open_tag) [64] \<and> truthy (snd open_tag)
      then map_option MarkupError (meta_message lib (the (snd open_tag)))
      else None)"

definition no_match_message :: "str \<Rightarrow> str option \<Rightarrow> nat \<Rightarrow> str" where
  "no_match_message name params pos =
     py ''closing tag '' @ [39] @ tag_markup name params @ [39] @ py '' at position ''
     @ str_nat pos @ py '' doesn'' @ [39] @ py ''t match any open tag''"

definition nothing_to_close_message :: "nat \<Rightarrow> str" where
  "nothing_to_close_message pos =
     py ''closing tag '' @ [39] @ py ''[/]'' @ [39] @ py '' at position '' @ str_nat pos
     @ py '' has nothing to close''"

text \<open>
  The loop of \<open>render\<close> over the tags, with the stack of open tags (top first): the
  exception it raises, if any. Text between the tags never raises.
\<close>

fun render_tags ::
  "rich \<Rightarrow> (str \<times> str option) list \<Rightarrow> (nat \<times> str) list \<Rightarrow> print_error option" where
  "render_tags lib stack [] = None"
| "render_tags lib stack ((pos, t) # ts) =
     (case partition_eq t of
        (name, params) \<Rightarrow>
          if startswith name [47] then
            (if strip (tl name) \<noteq> [] then
               (case style_normalize lib (strip (tl name)) of
                  Inl e \<Rightarrow> Some e
                | Inr style_name \<Rightarrow>
                    (case pop_style style_name stack of
                       None \<Rightarrow> Some (MarkupError (no_match_message name params pos))
                     | Some (open_tag, rest) \<Rightarrow>
                         (case closed_tag_error lib open_tag of
                            Some e \<Rightarrow> Some e
                          | None \<Rightarrow> render_tags lib rest ts)))
             else
               (case stack of
                  [] \<Rightarrow> Some (MarkupError (nothing_to_close_message pos))
                | open_tag # rest \<Rightarrow>
                    (case closed_tag_error lib open_tag of
                       Some e \<Rightarrow> Some e
                     | None \<Rightarrow> render_tags lib rest ts)))
          else
            (case style_normalize lib name of
               Inl e \<Rightarrow> Some e
             | Inr n \<Rightarrow> render_tags lib ((n, params) # stack) ts))"

text \<open>The exception that printing a text raises, if any.\<close>

definition markup_error :: "rich \<Rightarrow> str \<Rightarrow> print_error option" where
  "markup_error lib s = render_tags lib [] (scan (Outside 0) 0 s)"

section \<open>The request client\<close>

record GeminiBrowser =
  api_key :: str
  model :: str
  system_prompt :: "str option"

text \<open>
  What the network gives back to one \<open>requests.post\<close>: a response, or an exception of
  class \<open>RequestException\<close> (connection error, timeout) with its message.
  \<open>body_json\<close> is the result of \<open>response.json()\<close>: the decoded value, or the message of
  the \<open>requests.exceptions.JSONDecodeError\<close> it raises when the body is not JSON; that
  class derives from \<open>RequestException\<close>.
\<close>

record response =
  status_code :: int
  body_text :: str
  body_json :: "str + json"

datatype post_outcome = Response response | RequestException str

text \<open>The observable actions of the program, in the order in which they happen.\<close>

datatype effect =
    Post str "str list"
  | Sleep nat
  | Print str
  | PrintPanel str str
  | PrintTable str "(str \<times> str) list"
  | Status str
  | WriteFile str str

text \<open>
  The texts that the program prints with nothing of the user, the network or the file
  system in them close every tag they open, by the name it was opened with; they are
  plain \<open>Print\<close> actions. The other texts are read as markup when they are
  printed: \<open>console_print\<close> gives the action, or the exception raised instead.
\<close>

definition console_print :: "rich \<Rightarrow> str \<Rightarrow> print_error + effect" where
  "console_print lib s = (case markup_error lib s of None \<Rightarrow> Inr (Print s) | Some e \<Rightarrow> Inl e)"

definition supported_models :: "str list" where
  "supported_models = [py ''gemini-1.5-flash'', py ''gemini-1.5-pro'']"

definition set_model :: "GeminiBrowser \<Rightarrow> str \<Rightarrow> GeminiBrowser \<times> effect list" where
  "set_model self model_name =
     (if model_name \<in> set supported_models then
        (self\<lparr>model := model_name\<rparr>,
         [Print (py ''[cyan]Switched to model:[/cyan] [bold]'' @ model_name @ py ''[/bold]'')])
      else
        (self,
         [Print (py ''[red]Unsupported model.[/red] Available models: ''
                 @ join (py '', '') supported_models)]))"

definition api_url :: "GeminiBrowser \<Rightarrow> str" where
  "api_url self =
     py ''https://generativelanguage.googleapis.com/v1beta/models/'' @ model self
     @ py '':generateContent?key='' @ api_key self"

text \<open>The text segments of the request's \<open>contents\<close>, one per content block.\<close>

definition contents :: "GeminiBrowser \<Rightarrow> str \<Rightarrow> str list" where
  "contents self prompt =
     (if truthy (system_prompt self)
      then [py ''[SYSTEM]: '' @ the (system_prompt self), prompt]
      else [prompt])"

text \<open>The sentinel reply: a warning sign (U+26A0, U+FE0F), then the words.\<close>

definition sentinel :: str where
  "sentinel = [9888, 65039] @ py '' No valid response from Gemini.''"

definition error_message :: "response \<Rightarrow> str" where
  "error_message r =
     py ''[bold red]Error '' @ str_int (status_code r) @ py ''[/bold red]: '' @ body_text r"

definition failed_message :: "str \<Rightarrow> str" where
  "failed_message e = py ''[bold red]Request failed:[/bold red] '' @ e"

definition prepend :: "effect list \<Rightarrow> 'a \<times> effect list \<Rightarrow> 'a \<times> effect list" where
  "prepend es p = (fst p, es @ snd p)"

text \<open>
  The \<open>for attempt in range(1, retries + 1)\<close> loop, entered at \<open>attempt\<close>. \<open>net i\<close> is what
  the POST of attempt \<open>i\<close> meets. The result is the value returned (\<open>Inr\<close>) or the
  exception that leaves the function (\<open>Inl\<close>), with the actions performed. Both kinds of
  message are printed before the test that decides on a retry; an exception raised by
  the print is not a \<open>RequestException\<close> and leaves the function.
  \<open>delay\<close> is a duration, always the default 2 in this program.
\<close>

function attempts ::
  "rich \<Rightarrow> str \<Rightarrow> str list \<Rightarrow> int \<Rightarrow> nat \<Rightarrow> (int \<Rightarrow> post_outcome) \<Rightarrow> int
     \<Rightarrow> (exn + str option) \<times> effect list" where
  "attempts lib url data retries delay nw attempt =
     (if attempt \<le> retries then
        (case nw attempt of
           Response r \<Rightarrow>
             if status_code r = 200 then
               (case body_json r of
                  Inr output \<Rightarrow>
                    (case extract_text output of
                       Inr t \<Rightarrow> (Inr (Some t), [Post url data])
                     | Inl e \<Rightarrow>
                         if e = KeyError \<or> e = IndexError
                         then (Inr (Some sentinel), [Post url data])
                         else (Inl e, [Post url data]))
                | Inl e \<Rightarrow>
                    (case console_print lib (failed_message e) of
                       Inl pe \<Rightarrow> (Inl (PrintError pe), [Post url data])
                     | Inr out \<Rightarrow>
                         if attempt < retries then
                           prepend [Post url data, out, Sleep delay]
                             (attempts lib url data retries delay nw (attempt + 1))
                         else (Inr None, [Post url data, out])))
             else
               (case console_print lib (error_message r) of
                  Inl pe \<Rightarrow> (Inl (PrintError pe), [Post url data])
                | Inr out \<Rightarrow>
                    if 500 \<le> status_code r \<and> status_code r < 600 \<and> attempt < retries then
                      prepend [Post url data, out, Sleep delay]
                        (attempts lib url data retries delay nw (attempt + 1))
                    else (Inr None, [Post url data, out]))
         | RequestException e \<Rightarrow>
             (case console_print lib (failed_message e) of
                Inl pe \<Rightarrow> (Inl (PrintError pe), [Post url data])
              | Inr out \<Rightarrow>
                  if attempt < retries then
                    prepend [Post url data, out, Sleep delay]
                      (attempts lib url data retries delay nw (attempt + 1))
                  else (Inr None, [Post url data, out])))
      else (Inr None, []))"
  by pat_completeness auto
termination
  by (relation "measure (\<lambda>(lib, url, data, retries, delay, nw, attempt).
                           nat (retries + 1 - attempt))")
     auto

declare attempts.simps [simp del]

definition gemini_query ::
  "rich \<Rightarrow> GeminiBrowser \<Rightarrow> str \<Rightarrow> int \<Rightarrow> nat \<Rightarrow> (int \<Rightarrow> post_outcome)
     \<Rightarrow> (exn + str option) \<times> effect list" where
  "gemini_query lib self prompt retries delay nw =
     attempts lib (api_url self) (contents self prompt) retries delay nw 1"

section \<open>The command loop\<close>

text \<open>The variables of \<open>main\<close> that live across iterations.\<close>

record loop_state =
  bot :: GeminiBrowser
  last_reply :: "str option"
  history :: "(str \<times> str) list"

text \<open>\<open>main\<close> enters the loop with the bot it has built, no reply and an empty history.\<close>

definition initial_state :: "GeminiBrowser \<Rightarrow> loop_state" where
  "initial_state b = \<lparr>bot = b, last_reply = None, history = []\<rparr>"

text \<open>
  What one iteration meets: the line that \<open>Prompt.ask\<close> returns, the network during a
  query, and the message of the exception if opening or writing a file fails.
\<close>

record iteration =
  line :: str
  net :: "int \<Rightarrow> post_outcome"
  io_error :: "str option"

datatype control = Continue | Break

text \<open>
  The outcome of an iteration: the loop goes on or stops with a state, or an exception
  leaves \<open>main\<close>, which has no handler around the loop; the state is then the one reached
  when the exception was raised.
\<close>

type_synonym outcome = "(exn \<times> loop_state + control \<times> loop_state) \<times> effect list"

definition help_rows :: "(str \<times> str) list" where
  "help_rows =
     [(py ''/model NAME'', py ''Switch model (gemini-1.5-flash / gemini-1.5-pro)''),
      (py ''/save file.txt'', py ''Save last reply to file''),
      (py ''/export file.txt'', py ''Export full conversation to file''),
      (py ''/history'', py ''Show past conversation''),
      (py ''/system TEXT'', py ''Set a system instruction/persona''),
      (py ''/help'', py ''Show this help menu''),
      (py ''exit/quit'', py ''Exit the program'')]"

text \<open>A print that is the last statement of its branch.\<close>

definition say :: "rich \<Rightarrow> loop_state \<Rightarrow> str \<Rightarrow> outcome" where
  "say lib st msg =
     (case console_print lib msg of
        Inr out \<Rightarrow> (Inr (Continue, st), [out])
      | Inl pe \<Rightarrow> (Inl (PrintError pe, st), []))"

text \<open>
  The \<open>try\<close> blocks of \<open>/save\<close> and \<open>/export\<close>: the file is written and the success is
  printed; \<open>except Exception\<close> catches a failure of the file system, and also an exception
  raised by the print of the success, and prints its message. The print in the handler
  is not guarded.
\<close>

definition write_file ::
  "rich \<Rightarrow> loop_state \<Rightarrow> str option \<Rightarrow> str \<Rightarrow> str \<Rightarrow> str \<Rightarrow> str \<Rightarrow> outcome" where
  "write_file lib st err filename content ok_msg fail_prefix =
     (case err of
        Some e \<Rightarrow> say lib st (fail_prefix @ e)
      | None \<Rightarrow>
          prepend [WriteFile filename content]
            (case console_print lib ok_msg of
               Inr out \<Rightarrow> (Inr (Continue, st), [out])
             | Inl pe \<Rightarrow> say lib st (fail_prefix @ error_text pe)))"

definition export_text :: "(str \<times> str) list \<Rightarrow> str" where
  "export_text h =
     concat (map (\<lambda>(q, r). py ''USER: '' @ q @ [10] @ py ''GEMINI: '' @ r @ [10, 10]) h)"

text \<open>The loop of \<open>/history\<close> over \<open>enumerate(history, 1)\<close>: one panel per exchange.\<close>

fun show_history :: "rich \<Rightarrow> loop_state \<Rightarrow> (nat \<times> str \<times> str) list \<Rightarrow> outcome" where
  "show_history lib st [] = (Inr (Continue, st), [])"
| "show_history lib st ((i, q, r) # rest) =
     (case markup_error lib (py ''[bold yellow]You:[/bold yellow] '' @ q @ [10, 10]
                             @ py ''[bold green]Gemini:[/bold green] '' @ r) of
        Some pe \<Rightarrow> (Inl (PrintError pe, st), [])
      | None \<Rightarrow>
          prepend [PrintPanel (py ''[bold yellow]You:[/bold yellow] '' @ q @ [10, 10]
                               @ py ''[bold green]Gemini:[/bold green] '' @ r)
                              (py ''Exchange '' @ str_nat i)]
            (show_history lib st rest))"

text \<open>
  The \<open>else\<close> branch of the loop: the query with the default \<open>retries=3\<close> and
  \<open>delay=2\<close>, then the body of \<open>if reply:\<close>, where the panel is printed before
  \<open>last_reply\<close> and \<open>history\<close> are assigned. An exception that leaves \<open>gemini_query\<close> or
  the print leaves \<open>main\<close> too.
\<close>

definition prompt_branch :: "rich \<Rightarrow> loop_state \<Rightarrow> str \<Rightarrow> (int \<Rightarrow> post_outcome) \<Rightarrow> outcome" where
  "prompt_branch lib st user_input nw =
     (case gemini_query lib (bot st) user_input 3 2 nw of
        (Inl e, tr) \<Rightarrow> (Inl (e, st), Status (py ''[bold cyan]Thinking...[/bold cyan]'') # tr)
      | (Inr reply, tr) \<Rightarrow>
          if truthy reply then
            (case markup_error lib (the reply) of
               Some pe \<Rightarrow>
                 (Inl (PrintError pe, st), Status (py ''[bold cyan]Thinking...[/bold cyan]'') # tr)
             | None \<Rightarrow>
                 (Inr (Continue,
                       st\<lparr>last_reply := reply,
                          history := history st @ [(user_input, the reply)]\<rparr>),
                  Status (py ''[bold cyan]Thinking...[/bold cyan]'') # tr
                  @ [PrintPanel (the reply) (py ''Gemini Reply'')]))
          else
            (Inr (Continue, st), Status (py ''[bold cyan]Thinking...[/bold cyan]'') # tr))"

text \<open>One pass through the body of \<open>while True\<close>.\<close>

definition main_step :: "rich \<Rightarrow> loop_state \<Rightarrow> iteration \<Rightarrow> outcome" where
  "main_step lib st inp =
     (let user_input = strip (line inp) in
      if lower user_input \<in> set [py ''exit'', py ''quit''] then
        (Inr (Break, st), [Print (py ''[bold red]Goodbye![/bold red]'')])
      else if startswith user_input (py ''/help'') then
        (Inr (Continue, st), [PrintTable (py ''Available Commands'') help_rows])
      else if startswith user_input (py ''/model'') then
        (let parts = split_maxsplit1 user_input in
         if length parts = 2 then
           (case set_model (bot st) (strip (parts ! 1)) of
              (b, out) \<Rightarrow> (Inr (Continue, st\<lparr>bot := b\<rparr>), out))
         else (Inr (Continue, st), [Print (py ''[yellow]Usage:[/yellow] /model MODEL_NAME'')]))
      else if startswith user_input (py ''/save'') then
        (let parts = split_maxsplit1 user_input in
         if length parts = 2 then
           (let filename = strip (parts ! 1) in
            if truthy (last_reply st) then
              write_file lib st (io_error inp) filename (the (last_reply st))
                (py ''[bold green]Reply saved to '' @ filename @ py ''[/bold green]'')
                (py ''[bold red]Error saving file:[/bold red] '')
            else (Inr (Continue, st), [Print (py ''[yellow]No reply to save yet.[/yellow]'')]))
         else (Inr (Continue, st), [Print (py ''[yellow]Usage:[/yellow] /save filename.txt'')]))
      else if startswith user_input (py ''/export'') then
        (let parts = split_maxsplit1 user_input in
         if length parts = 2 then
           (let filename = strip (parts ! 1) in
            write_file lib st (io_error inp) filename (export_text (history st))
              (py ''[bold green]Conversation exported to '' @ filename @ py ''[/bold green]'')
              (py ''[bold red]Error exporting file:[/bold red] ''))
         else (Inr (Continue, st), [Print (py ''[yellow]Usage:[/yellow] /export filename.txt'')]))
      else if startswith user_input (py ''/history'') then
        (if history st = [] then
           (Inr (Continue, st), [Print (py ''[yellow]No history yet.[/yellow]'')])
         else show_history lib st (zip [1 ..< Suc (length (history st))] (history st)))
      else if startswith user_input (py ''/system'') then
        (let parts = split_maxsplit1 user_input in
         if length parts = 2 then
           say lib (st\<lparr>bot := (bot st)\<lparr>system_prompt := Some (strip (parts ! 1))\<rparr>\<rparr>)
             (py ''[cyan]System instruction set:[/cyan] '' @ strip (parts ! 1))
         else (Inr (Continue, st), [Print (py ''[yellow]Usage:[/yellow] /system TEXT'')]))
      else prompt_branch lib st user_input (net inp))"

text \<open>
  The loop over the iterations met so far. It ends at \<open>break\<close> or at an exception; while
  neither has happened the program waits for the next line.
\<close>

datatype run_status = Waiting | Exited | Crashed exn

fun main_loop ::
  "rich \<Rightarrow> loop_state \<Rightarrow> iteration list \<Rightarrow> (run_status \<times> loop_state) \<times> effect list" where
  "main_loop lib st [] = ((Waiting, st), [])"
| "main_loop lib st (inp # inps) =
     (case main_step lib st inp of
        (Inl (e, st'), tr) \<Rightarrow> ((Crashed e, st'), tr)
      | (Inr (Break, st'), tr) \<Rightarrow> ((Exited, st'), tr)
      | (Inr (Continue, st'), tr) \<Rightarrow> prepend tr (main_loop lib st' inps))"

section \<open>Vocabulary of the properties\<close>

fun is_Post :: "effect \<Rightarrow> bool" where
  "is_Post (Post url data) = True"
| "is_Post _ = False"

text \<open>The number of POSTs among the actions.\<close>

definition posts :: "effect list \<Rightarrow> nat" where
  "posts tr = length (filter is_Post tr)"








text \<open>
  The expected shape of a response body, \<open>candidates[0].content.parts[0].text\<close>, as a path
  of keys and indices.
\<close>

datatype selector = Key str | Index nat

definition text_path :: "selector list" where
  "text_path =
     [Key (py ''candidates''), Index 0, Key (py ''content''), Key (py ''parts''), Index 0,
      Key (py ''text'')]"

text \<open>The value at a path: objects are entered by key, arrays by index.\<close>

fun value_at :: "json \<Rightarrow> selector list \<Rightarrow> json option" where
  "value_at v [] = Some v"
| "value_at (JObj kvs) (Key k # p) =
     (case map_of kvs k of None \<Rightarrow> None | Some v \<Rightarrow> value_at v p)"
| "value_at (JArr xs) (Index i # p) = (if i < length xs then value_at (xs ! i) p else None)"
| "value_at _ _ = None"



text \<open>
  A line that is neither \<open>exit\<close>/\<open>quit\<close> nor starts with a command prefix: the
  condition under which the loop reaches its \<open>else\<close> branch.
\<close>

definition plain_prompt :: "str \<Rightarrow> bool" where
  "plain_prompt u \<longleftrightarrow>
     lower u \<notin> set [py ''exit'', py ''quit''] \<and>
     \<not> startswith u (py ''/help'') \<and> \<not> startswith u (py ''/model'') \<and>
     \<not> startswith u (py ''/save'') \<and> \<not> startswith u (py ''/export'') \<and>
     \<not> startswith u (py ''/history'') \<and> \<not> startswith u (py ''/system'')"






text \<open>The state that an iteration ends with.\<close>

fun outcome_state :: "exn \<times> loop_state + control \<times> loop_state \<Rightarrow> loop_state" where
  "outcome_state (Inl (e, st)) = st"
| "outcome_state (Inr (c, st)) = st"

section \<open>Sample inputs\<close>

text \<open>
  A library for the examples: a style name is normalised to lower case without the
  blanks around it, as \<open>Style.normalize\<close> does with a name that is not a style
  definition, and the parameters of \<open>@\<close> tags evaluate.
\<close>

definition demo_rich :: rich where
  "demo_rich = \<lparr>style_normalize = (\<lambda>s. Inr (lower (strip s))), meta_message = (\<lambda>p. None)\<rparr>"

definition demo_bot :: GeminiBrowser where
  "demo_bot = \<lparr>api_key = py ''k'', model = py ''gemini-1.5-flash'', system_prompt = None\<rparr>"

definition http :: "int \<Rightarrow> str \<Rightarrow> str + json \<Rightarrow> post_outcome" where
  "http code txt js = Response \<lparr>status_code = code, body_text = txt, body_json = js\<rparr>"


section \<open>Properties of the request client\<close>

text \<open>The definitions that evaluate the markup of a given text.\<close>

lemmas markup_eval =
  markup_error_def py_def tag_start_def outside_step_def partition_eq_def startswith_def
  strip_def isspace_def demo_rich_def lower_def lower_cp_def closed_tag_error_def truthy_def












lemma str_int_400: "str_int 400 = py ''400''"
  by (simp add: str_int_def str_nat.simps py_def)





subsection \<open>C1: a client error ends the call\<close>




subsection \<open>The branch of the loop that queries\<close>

lemma main_step_prompt:
  "plain_prompt (strip (line inp)) \<Longrightarrow>
     main_step lib st inp = prompt_branch lib st (strip (line inp)) (net inp)"
  by (simp add: main_step_def plain_prompt_def Let_def)

lemma strip_hello: "strip (py ''hello'') = py ''hello''"
  by (simp add: strip_def isspace_def py_def)

lemma plain_hello: "plain_prompt (py ''hello'')"
  by (simp add: plain_prompt_def py_def lower_def lower_cp_def startswith_def)


lemma attempts_first_post:
  "a \<le> retries \<Longrightarrow>
     \<exists>tr. snd (attempts lib url data retries delay nw a) = Post url data # tr"
  by (subst attempts.simps)
     (auto simp: prepend_def console_print_def
           split: post_outcome.splits sum.splits option.splits)

subsection \<open>C2: retries run out\<close>





subsection \<open>C3: a server error, then a reply\<close>




subsection \<open>C4: a body without the expected field\<close>

text \<open>
  C4 says that every HTTP 200 response whose JSON body lacks
  \<open>candidates[0].content.parts[0].text\<close> yields the sentinel reply. The handler that
  returns the sentinel catches KeyError and IndexError only. In the body
  \<open>{"candidates": [{"content": null}]}\<close> the field is not there, the subscript of null
  raises TypeError, and the exception leaves \<open>gemini_query\<close>: no sentinel is returned.
\<close>

theorem missing_field_type_error:
  "value_at (JObj [(py ''candidates'', JArr [JObj [(py ''content'', JNull)]])]) text_path = None
   \<and> gemini_query lib demo_bot (py ''hello'') 3 2
        (\<lambda>i. http 200 [] (Inr (JObj [(py ''candidates'', JArr [JObj [(py ''content'', JNull)]])])))
     = (Inl TypeError, [Post (api_url demo_bot) [py ''hello'']])"
  by (simp add: http_def gemini_query_def attempts.simps contents_def demo_bot_def truthy_def
        extract_text_def and_then_def text_path_def py_def)

subsection \<open>C6: a 200 response that is not JSON\<close>





subsection \<open>C7: exceptions that leave the call\<close>

text \<open>
  C7 says that \<open>gemini_query\<close> returns a string or null whatever the responses are. The
  handler around the extraction catches KeyError and IndexError only: an HTTP 200
  response with the body \<open>{"candidates": null}\<close> makes the subscript raise TypeError,
  which leaves \<open>gemini_query\<close> after one POST and ends the command loop.
\<close>

theorem type_error_escapes:
  "gemini_query lib demo_bot (py ''hello'') 3 2
     (\<lambda>i. http 200 [] (Inr (JObj [(py ''candidates'', JNull)])))
     = (Inl TypeError, [Post (api_url demo_bot) [py ''hello'']])
   \<and> fst (main_loop lib (initial_state demo_bot)
            [\<lparr>line = py ''hello'',
              net = (\<lambda>i. http 200 [] (Inr (JObj [(py ''candidates'', JNull)]))),
              io_error = None\<rparr>])
     = (Crashed TypeError, initial_state demo_bot)"
proof -
  have q: "gemini_query lib demo_bot (py ''hello'') 3 2
             (\<lambda>i. http 200 [] (Inr (JObj [(py ''candidates'', JNull)])))
           = (Inl TypeError, [Post (api_url demo_bot) [py ''hello'']])"
    by (simp add: http_def gemini_query_def attempts.simps contents_def demo_bot_def truthy_def
          extract_text_def and_then_def py_def)
  have "main_step lib (initial_state demo_bot)
          \<lparr>line = py ''hello'',
           net = (\<lambda>i. http 200 [] (Inr (JObj [(py ''candidates'', JNull)]))),
           io_error = None\<rparr>
        = (Inl (TypeError, initial_state demo_bot),
           [Status (py ''[bold cyan]Thinking...[/bold cyan]''),
            Post (api_url demo_bot) [py ''hello'']])"
    using plain_hello q
    by (simp add: main_step_prompt prompt_branch_def strip_hello initial_state_def)
  then show ?thesis using q by simp
qed

section \<open>Properties of the command loop\<close>

subsection \<open>C8: model selection\<close>

text \<open>
  C8. The allow-list has two names. For every name in it, \<open>set_model\<close> makes that name
  the active model and leaves the rest of the bot as it is; for every other name,
  \<open>set_model\<close> leaves the bot unchanged and prints the allow-list.
\<close>

theorem set_model_allow_list:
  "length supported_models = 2
   \<and> (model_name \<in> set supported_models \<longrightarrow>
        fst (set_model self model_name) = self\<lparr>model := model_name\<rparr>)
   \<and> (model_name \<notin> set supported_models \<longrightarrow>
        set_model self model_name
          = (self,
             [Print (py ''[red]Unsupported model.[/red] Available models: ''
                     @ py ''gemini-1.5-flash, gemini-1.5-pro'')]))"
  by (simp add: set_model_def) (simp add: supported_models_def py_def)

theorem set_model_allow_list_witness:
  "py ''gemini-1.5-pro'' \<in> set supported_models
   \<and> model (fst (set_model demo_bot (py ''gemini-1.5-pro''))) = py ''gemini-1.5-pro''
   \<and> py ''gemini-2.0'' \<notin> set supported_models
   \<and> fst (set_model demo_bot (py ''gemini-2.0'')) = demo_bot"
proof -
  have a: "py ''gemini-1.5-pro'' \<in> set supported_models"
    by (simp add: supported_models_def)
  have b: "py ''gemini-2.0'' \<notin> set supported_models"
    by (simp add: supported_models_def py_def)
  show ?thesis
    using a b set_model_allow_list [of "py ''gemini-1.5-pro''" demo_bot]
      set_model_allow_list [of "py ''gemini-2.0''" demo_bot]
    by simp
qed



subsection \<open>C9: what a prompt iteration does with the reply\<close>










subsection \<open>C10: which lines are sent as queries\<close>

lemma say_keeps:
  "last_reply (outcome_state (fst (say lib st m))) = last_reply st
   \<and> history (outcome_state (fst (say lib st m))) = history st
   \<and> filter is_Post (snd (say lib st m)) = []"
  by (simp add: say_def console_print_def split: option.splits)

lemma write_file_keeps:
  "last_reply (outcome_state (fst (write_file lib st err f c ok_msg fail_prefix))) = last_reply st
   \<and> history (outcome_state (fst (write_file lib st err f c ok_msg fail_prefix))) = history st
   \<and> filter is_Post (snd (write_file lib st err f c ok_msg fail_prefix)) = []"
  using say_keeps [of lib st]
  by (simp add: write_file_def console_print_def prepend_def split: option.splits)

lemma show_history_keeps:
  "last_reply (outcome_state (fst (show_history lib st h))) = last_reply st
   \<and> history (outcome_state (fst (show_history lib st h))) = history st
   \<and> filter is_Post (snd (show_history lib st h)) = []"
  by (induction lib st h rule: show_history.induct)
     (simp_all add: prepend_def split: option.splits)

lemma command_step:
  assumes "\<not> plain_prompt (strip (line inp))"
  shows "last_reply (outcome_state (fst (main_step lib st inp))) = last_reply st
         \<and> history (outcome_state (fst (main_step lib st inp))) = history st
         \<and> filter is_Post (snd (main_step lib st inp)) = []"
proof -
  let ?u = "strip (line inp)"
  consider
    (on_exit) "lower ?u \<in> set [py ''exit'', py ''quit'']"
  | (on_help) "lower ?u \<notin> set [py ''exit'', py ''quit'']" "startswith ?u (py ''/help'')"
  | (on_model) "lower ?u \<notin> set [py ''exit'', py ''quit'']" "\<not> startswith ?u (py ''/help'')"
      "startswith ?u (py ''/model'')"
  | (on_save) "lower ?u \<notin> set [py ''exit'', py ''quit'']" "\<not> startswith ?u (py ''/help'')"
      "\<not> startswith ?u (py ''/model'')" "startswith ?u (py ''/save'')"
  | (on_export) "lower ?u \<notin> set [py ''exit'', py ''quit'']" "\<not> startswith ?u (py ''/help'')"
      "\<not> startswith ?u (py ''/model'')" "\<not> startswith ?u (py ''/save'')"
      "startswith ?u (py ''/export'')"
  | (on_history) "lower ?u \<notin> set [py ''exit'', py ''quit'']" "\<not> startswith ?u (py ''/help'')"
      "\<not> startswith ?u (py ''/model'')" "\<not> startswith ?u (py ''/save'')"
      "\<not> startswith ?u (py ''/export'')" "startswith ?u (py ''/history'')"
  | (on_system) "lower ?u \<notin> set [py ''exit'', py ''quit'']" "\<not> startswith ?u (py ''/help'')"
      "\<not> startswith ?u (py ''/model'')" "\<not> startswith ?u (py ''/save'')"
      "\<not> startswith ?u (py ''/export'')" "\<not> startswith ?u (py ''/history'')"
      "startswith ?u (py ''/system'')"
    using assms unfolding plain_prompt_def by blast
  then show ?thesis
  proof cases
    case on_exit
    then show ?thesis by (simp add: main_step_def Let_def)
  next
    case on_help
    then show ?thesis by (simp add: main_step_def Let_def)
  next
    case on_model
    then show ?thesis by (simp add: main_step_def Let_def set_model_def)
  next
    case on_save
    then show ?thesis by (simp add: main_step_def Let_def write_file_keeps)
  next
    case on_export
    then show ?thesis by (simp add: main_step_def Let_def write_file_keeps)
  next
    case on_history
    then show ?thesis by (simp add: main_step_def Let_def show_history_keeps)
  next
    case on_system
    then show ?thesis
      using say_keeps [of lib
          "st\<lparr>bot := (bot st)\<lparr>system_prompt :=
                  Some (strip (split_maxsplit1 (strip (line inp)) ! 1))\<rparr>\<rparr>"
          "py ''[cyan]System instruction set:[/cyan] ''
           @ strip (split_maxsplit1 (strip (line inp)) ! 1)"]
      by (simp add: main_step_def Let_def)
  qed
qed

lemma command_no_post:
  "\<not> plain_prompt (strip (line inp)) \<Longrightarrow> posts (snd (main_step lib st inp)) = 0"
  using command_step [of inp lib st] by (simp add: posts_def)

lemma prompt_branch_effects:
  "\<exists>tr. snd (prompt_branch lib st u nw)
          = Status (py ''[bold cyan]Thinking...[/bold cyan]'')
            # Post (api_url (bot st)) (contents (bot st) u) # tr"
proof -
  obtain tr where
    tr: "snd (gemini_query lib (bot st) u 3 2 nw)
           = Post (api_url (bot st)) (contents (bot st) u) # tr"
    using attempts_first_post [of 1 3 lib "api_url (bot st)" "contents (bot st) u" 2 nw]
    by (auto simp: gemini_query_def)
  show ?thesis
    using tr
    by (cases "gemini_query lib (bot st) u 3 2 nw")
       (auto simp: prompt_branch_def split: sum.splits option.splits)
qed

text \<open>
  C10 as stated fails: the loop has no test for an empty line. A line of blanks is
  trimmed to the empty string, reaches the \<open>else\<close> branch and is sent as a query with an
  empty prompt.
\<close>

theorem empty_line_counterexample:
  "strip (py ''   '') = []
   \<and> snd (main_step demo_rich (initial_state demo_bot)
            \<lparr>line = py ''   '', net = (\<lambda>i. http 400 [] (Inl [])), io_error = None\<rparr>)
     = [Status (py ''[bold cyan]Thinking...[/bold cyan]''),
        Post (api_url demo_bot) [[]],
        Print (error_message \<lparr>status_code = 400, body_text = [], body_json = Inl []\<rparr>)]"
proof -
  have s: "strip (py ''   '') = []"
    by (simp add: strip_def isspace_def py_def)
  have p: "plain_prompt []"
    by (simp add: plain_prompt_def py_def lower_def startswith_def)
  have e: "markup_error demo_rich
             (error_message \<lparr>status_code = 400, body_text = [], body_json = Inl []\<rparr>) = None"
    by (simp add: error_message_def str_int_400) (simp add: markup_eval del: One_nat_def)
  have q: "gemini_query demo_rich demo_bot [] 3 2 (\<lambda>i. http 400 [] (Inl []))
           = (Inr None,
              [Post (api_url demo_bot) [[]],
               Print (error_message \<lparr>status_code = 400, body_text = [], body_json = Inl []\<rparr>)])"
    by (simp add: http_def gemini_query_def attempts.simps contents_def demo_bot_def truthy_def
          console_print_def e)
  show ?thesis
    using p q by (simp add: s main_step_prompt prompt_branch_def initial_state_def truthy_def)
qed

text \<open>
  C10, amended. A loop iteration invokes the request client exactly when its trimmed
  line is neither \<open>exit\<close> or \<open>quit\<close> nor starts with a command prefix; such a line is
  sent as the prompt of a query, and the empty line is one of them.
\<close>

theorem query_iff_plain_prompt:
  "plain_prompt []
   \<and> (0 < posts (snd (main_step lib st inp)) \<longleftrightarrow> plain_prompt (strip (line inp)))
   \<and> (plain_prompt (strip (line inp)) \<longrightarrow>
        (\<exists>tr. snd (main_step lib st inp)
               = Status (py ''[bold cyan]Thinking...[/bold cyan]'')
                 # Post (api_url (bot st)) (contents (bot st) (strip (line inp))) # tr))"
proof -
  have e: "plain_prompt []"
    by (simp add: plain_prompt_def py_def lower_def startswith_def)
  have y: "\<exists>tr. snd (main_step lib st inp)
                 = Status (py ''[bold cyan]Thinking...[/bold cyan]'')
                   # Post (api_url (bot st)) (contents (bot st) (strip (line inp))) # tr"
    if "plain_prompt (strip (line inp))"
    using that prompt_branch_effects [of lib st "strip (line inp)" "net inp"]
    by (simp add: main_step_prompt)
  have p: "0 < posts (snd (main_step lib st inp))" if "plain_prompt (strip (line inp))"
    using y [OF that] by (auto simp: posts_def)
  have n: "posts (snd (main_step lib st inp)) = 0" if "\<not> plain_prompt (strip (line inp))"
    using that by (rule command_no_post)
  from e y p n show ?thesis by (metis less_numeral_extra(3))
qed

theorem query_iff_plain_prompt_witness:
  "plain_prompt (strip (py ''   ''))
   \<and> 0 < posts (snd (main_step demo_rich (initial_state demo_bot)
            \<lparr>line = py ''   '', net = (\<lambda>i. http 400 [] (Inl [])), io_error = None\<rparr>))
   \<and> \<not> plain_prompt (strip (py ''/history''))
   \<and> posts (snd (main_step demo_rich (initial_state demo_bot)
            \<lparr>line = py ''/history'', net = (\<lambda>i. http 400 [] (Inl [])), io_error = None\<rparr>)) = 0"
proof -
  have s: "strip (py ''   '') = []" "strip (py ''/history'') = py ''/history''"
    by (simp_all add: strip_def isspace_def py_def)
  have h: "\<not> plain_prompt (py ''/history'')"
    by (simp add: plain_prompt_def py_def lower_def lower_cp_def startswith_def)
  show ?thesis
    using h
      query_iff_plain_prompt [of demo_rich "initial_state demo_bot"
        "\<lparr>line = py ''   '', net = (\<lambda>i. http 400 [] (Inl [])), io_error = None\<rparr>"]
      query_iff_plain_prompt [of demo_rich "initial_state demo_bot"
        "\<lparr>line = py ''/history'', net = (\<lambda>i. http 400 [] (Inl [])), io_error = None\<rparr>"]
    by (simp add: s)
qed

subsection \<open>C5: history and the exchanges that succeeded\<close>







end
